theory Spec2Isabelle
  imports
    Main
    "HOL-Library.Word"
    "HOL-Library.Signed_Division"
    "HOL-Library.Product_Lexorder"
begin

unbundle bit_operations_syntax

section \<open>Proof-of-stake kernel of pos.cpp\<close>

text \<open>
  A shallow embedding of \<^verbatim>\<open>src/pos.cpp\<close>: the stake-modifier engine
  (\<^verbatim>\<open>GetLastStakeModifier\<close>, \<^verbatim>\<open>SelectBlockFromCandidates\<close>,
  \<^verbatim>\<open>ComputeNextStakeModifier\<close>), the kernel-modifier lookup
  (\<^verbatim>\<open>GetKernelStakeModifier\<close>), the two kernel hash checks and the validator
  \<^verbatim>\<open>CheckProofOfStake\<close>.

  Conventions. A C++ function returning \<^verbatim>\<open>bool\<close> returns a value of type
  \<open>ret\<close>, which keeps apart \<^verbatim>\<open>return true\<close>, a plain \<^verbatim>\<open>return false\<close>,
  \<^verbatim>\<open>return error(...)\<close> (which logs and yields false) and the places where the
  C++ returns nothing: division by zero, a vector read out of range, a failed
  \<^verbatim>\<open>assert\<close>, and the \<^verbatim>\<open>std::length_error\<close> that leaves the function when
  \<^verbatim>\<open>reserve\<close> is asked for more than the vector can hold. Reference parameters
  written by a function are returned next to the \<open>ret\<close>. 64-bit signed quantities (\<^verbatim>\<open>int64_t\<close>) and \<^verbatim>\<open>int\<close> are
  integers of HOL with C++'s truncating division \<open>sdiv\<close>; their overflow is outside the
  model. Unsigned 32-, 64- and 256-bit quantities are words.
\<close>

subsection \<open>Data\<close>

type_synonym byte = "8 word"
type_synonym uint32 = "32 word"
type_synonym uint64 = "64 word"

text \<open>
  Modelled from the spec: \<^verbatim>\<open>uint256.h\<close> is not among the sources. A
  \<^verbatim>\<open>uint256\<close> is the 256-bit unsigned integer it denotes; \<^verbatim>\<open><\<close> and
  \<^verbatim>\<open>>>=\<close> on it are the comparison and the shift of 256-bit integers.
\<close>
type_synonym uint256 = "256 word"

text \<open>
  Modelled from the spec: \<^verbatim>\<open>consensus/params.h\<close> is not among the sources. The
  fields of \<^verbatim>\<open>Consensus::CParams\<close> read by pos.cpp (seconds, or a height), each
  taken as a signed 64-bit quantity, the type in which \<^verbatim>\<open>GetWeight\<close> and the
  divisions of \<^verbatim>\<open>ComputeNextStakeModifier\<close> compute with them.
\<close>
record CParams =
  nStakeMinAge :: int
  nStakeMaxAge :: int
  nModifierInterval :: int
  nTargetSpacing :: int
  nProtocolV2Height :: int

text \<open>
  Modelled from the spec: \<^verbatim>\<open>pos.h\<close> is not among the sources; the spec gives
  \<^verbatim>\<open>modifier_interval_ratio = 3\<close>.
\<close>
definition MODIFIER_INTERVAL_RATIO :: int where
  "MODIFIER_INTERVAL_RATIO = 3"

text \<open>
  Modelled from the spec: \<^verbatim>\<open>chain.h\<close> is not among the sources. The fields and
  accessors of a block index node that pos.cpp reads; the links \<^verbatim>\<open>pprev\<close> and
  \<^verbatim>\<open>pnext\<close> are modelled below.
\<close>
record CBlockIndex =
  nHeight :: int
  GetBlockTime :: int
  GetBlockHash :: uint256
  hashProof :: uint256
  nStakeModifier :: uint64
  GeneratedStakeModifier :: bool
  GetStakeEntropyBit :: bool
  IsProofOfStake :: bool

text \<open>
  A \<^verbatim>\<open>const CBlockIndex*\<close> followed along \<^verbatim>\<open>pprev\<close> is the list of the
  node and its ancestors, nearest first; the null pointer is the empty list. A node
  followed along \<^verbatim>\<open>pnext\<close> is a \<open>chain_node\<close>: the node and, if it has a
  successor on the active chain, that successor.
\<close>
datatype chain_node = ChainNode (blk: CBlockIndex) (pnext: "chain_node option")

datatype fault = DivisionByZero | IndexOutOfRange | AssertionFailed | NullDereference | LengthError

datatype err =
    NullPindex
  | NoGenerationAtGenesis
  | CandidateNotIndexed
  | UnableToGetLastModifier
  | UnableToSelectBlock nat
  | BlockNotIndexed
  | ReachedBestBlock
  | NTimeViolation
  | MinAgeViolation
  | NotCoinStake
  | PrevoutDoesNotExist
  | BlockCannotBeLoaded
  | BlockNotFound
  | PrevoutNotInChain
  | VerifySignatureFailed
  | CheckKernelFailed

datatype ret = Ret_true | Ret_false | Ret_error err | Undefined fault

subsection \<open>Selection interval\<close>

text \<open>\<^verbatim>\<open>GetStakeModifierSelectionIntervalSection\<close>; \<open>None\<close> is the failed assert.\<close>
definition GetStakeModifierSelectionIntervalSection :: "CParams \<Rightarrow> int \<Rightarrow> int option" where
  "GetStakeModifierSelectionIntervalSection p nSection =
     (if nSection \<ge> 0 \<and> nSection < 64
      then Some (nModifierInterval p * 63 sdiv (63 + ((63 - nSection) * (MODIFIER_INTERVAL_RATIO - 1))))
      else None)"

text \<open>The loop of \<^verbatim>\<open>GetStakeModifierSelectionInterval\<close>, from section \<open>nSection\<close> on.\<close>
function SelectionInterval_loop :: "CParams \<Rightarrow> int \<Rightarrow> int \<Rightarrow> int option" where
  "SelectionInterval_loop p nSection nSelectionInterval =
     (if nSection < 64
      then (case GetStakeModifierSelectionIntervalSection p nSection of
              None \<Rightarrow> None
            | Some s \<Rightarrow> SelectionInterval_loop p (nSection + 1) (nSelectionInterval + s))
      else Some nSelectionInterval)"
  by pat_completeness auto
termination
  by (relation "measure (\<lambda>(p, nSection, nSelectionInterval). nat (64 - nSection))") auto

definition GetStakeModifierSelectionInterval :: "CParams \<Rightarrow> int option" where
  "GetStakeModifierSelectionInterval p = SelectionInterval_loop p 0 0"

subsection \<open>Serialization and the environment\<close>

text \<open>
  Modelled from the spec: \<^verbatim>\<open>serialize.h\<close> is not among the sources. Every
  integer written to a \<^verbatim>\<open>CDataStream\<close> is its bytes, least significant first,
  with no framing; a 256-bit hash is 32 such bytes.
\<close>
fun le_bytes :: "nat \<Rightarrow> nat \<Rightarrow> byte list" where
  "le_bytes 0 v = []"
| "le_bytes (Suc k) v = word_of_nat (v mod 256) # le_bytes k (v div 256)"

definition ser_u32 :: "uint32 \<Rightarrow> byte list" where
  "ser_u32 w = le_bytes 4 (unat w)"

definition ser_u64 :: "uint64 \<Rightarrow> byte list" where
  "ser_u64 w = le_bytes 8 (unat w)"

definition ser_u256 :: "uint256 \<Rightarrow> byte list" where
  "ser_u256 w = le_bytes 32 (unat w)"

text \<open>
  Modelled from the spec: the declarations of transactions, blocks and coins are not
  among the sources. The records hold what pos.cpp reads of them: the hash and index of
  an outpoint, the \<^verbatim>\<open>int64_t\<close> value of an output (its 64 bits, read with
  \<open>sint\<close>), the inputs, outputs and 32-bit time of a transaction, the time and hash of a
  block, the height of a coin.
\<close>
record COutPoint =
  prevout_hash :: uint256
  prevout_n :: uint32

record CTxOut =
  nValue :: "64 word"

record CTxIn =
  prevout :: COutPoint

record CTransaction =
  nTime :: uint32
  vin :: "CTxIn list"
  vout :: "CTxOut list"

record CBlock =
  block_GetBlockTime :: int
  block_GetHash :: uint256

record Coin =
  coin_nHeight :: int

text \<open>
  What pos.cpp takes from the rest of the program: the consensus parameters, the globals
  \<^verbatim>\<open>mapBlockIndex\<close> and \<^verbatim>\<open>fDebug\<close>, the network-adjusted clock, the
  constants \<^verbatim>\<open>COIN\<close> and \<^verbatim>\<open>STAKE_TIMESTAMP_MASK\<close>, the hash function
  \<^verbatim>\<open>Hash\<close> (double SHA-256), the two expansions of a compact target
  (\<^verbatim>\<open>CBigNum::SetCompact\<close>, an integer of any size and sign, and
  \<^verbatim>\<open>arith_uint256::SetCompact\<close>), the product of an \<^verbatim>\<open>arith_uint256\<close> with
  an \<^verbatim>\<open>int64_t\<close>, the \<^verbatim>\<open>max_size()\<close> of the candidate vector (set by the
  platform), and the collaborators of the validator. None of them is defined in pos.cpp,
  so each is a parameter.
\<close>
record env =
  params :: CParams
  mapBlockIndex :: "uint256 \<Rightarrow> chain_node option"
  fDebug :: bool
  GetAdjustedTime :: int
  COIN :: int
  STAKE_TIMESTAMP_MASK :: int
  Hash :: "byte list \<Rightarrow> uint256"
  CBigNum_SetCompact :: "uint32 \<Rightarrow> int"
  arith_SetCompact :: "uint32 \<Rightarrow> uint256"
  arith_times_int64 :: "uint256 \<Rightarrow> int \<Rightarrow> uint256"
  vector_max_size :: int
  IsCoinStake :: "CTransaction \<Rightarrow> bool"
  GetCoin :: "COutPoint \<Rightarrow> Coin option"
  GetAncestor :: "CBlockIndex \<Rightarrow> int \<Rightarrow> CBlockIndex option"
  ReadBlockFromDisk :: "CBlockIndex \<Rightarrow> CBlock option"
  GetTransaction :: "uint256 \<Rightarrow> CTransaction option"
  ReadTxOffsetIndex :: "int \<Rightarrow> int \<Rightarrow> int"
  VerifySignature :: "Coin \<Rightarrow> uint256 \<Rightarrow> CTransaction \<Rightarrow> bool"

subsection \<open>Modifier engine\<close>

definition GetWeight :: "CParams \<Rightarrow> int \<Rightarrow> int \<Rightarrow> int" where
  "GetWeight p nIntervalBeginning nIntervalEnd =
     min (nIntervalEnd - nIntervalBeginning - nStakeMinAge p) (nStakeMaxAge p)"

text \<open>\<^verbatim>\<open>GetLastStakeModifier\<close>: the result and, on success, the modifier and its time.\<close>
fun GetLastStakeModifier :: "CBlockIndex list \<Rightarrow> err + (uint64 \<times> int)" where
  "GetLastStakeModifier [] = Inl NullPindex"
| "GetLastStakeModifier [pindex] =
     (if \<not> GeneratedStakeModifier pindex then Inl NoGenerationAtGenesis
      else Inr (nStakeModifier pindex, GetBlockTime pindex))"
| "GetLastStakeModifier (pindex # pprev # rest) =
     (if \<not> GeneratedStakeModifier pindex then GetLastStakeModifier (pprev # rest)
      else Inr (nStakeModifier pindex, GetBlockTime pindex))"

text \<open>
  The loop of \<^verbatim>\<open>SelectBlockFromCandidates\<close> over the items still to visit, with the
  locals \<^verbatim>\<open>fSelected\<close>, \<^verbatim>\<open>hashBest\<close> and \<^verbatim>\<open>*pindexSelected\<close>.
  \<^verbatim>\<open>mapSelectedBlocks\<close> is only asked for the presence of a key.
\<close>
fun SelectBlock_loop ::
  "env \<Rightarrow> (uint256 \<Rightarrow> CBlockIndex option) \<Rightarrow> int \<Rightarrow> uint64 \<Rightarrow> (int \<times> uint256) list \<Rightarrow>
   bool \<Rightarrow> uint256 \<Rightarrow> CBlockIndex option \<Rightarrow> ret \<times> CBlockIndex option" where
  "SelectBlock_loop E mapSelectedBlocks nSelectionIntervalStop nStakeModifierPrev []
      fSelected hashBest pindexSelected =
     (if fSelected then Ret_true else Ret_false, pindexSelected)"
| "SelectBlock_loop E mapSelectedBlocks nSelectionIntervalStop nStakeModifierPrev (item # rest)
      fSelected hashBest pindexSelected =
     (case mapBlockIndex E (snd item) of
        None \<Rightarrow> (Ret_error CandidateNotIndexed, pindexSelected)
      | Some node \<Rightarrow>
          let pindex = blk node in
          if fSelected \<and> GetBlockTime pindex > nSelectionIntervalStop
          then (if fSelected then Ret_true else Ret_false, pindexSelected)
          else if mapSelectedBlocks (GetBlockHash pindex) \<noteq> None
          then SelectBlock_loop E mapSelectedBlocks nSelectionIntervalStop nStakeModifierPrev rest
                 fSelected hashBest pindexSelected
          else
            let hashSelection0 = Hash E (ser_u256 (hashProof pindex) @ ser_u64 nStakeModifierPrev);
                hashSelection = (if IsProofOfStake pindex then drop_bit 32 hashSelection0
                                 else hashSelection0)
            in if fSelected \<and> hashSelection < hashBest
               then SelectBlock_loop E mapSelectedBlocks nSelectionIntervalStop nStakeModifierPrev rest
                      fSelected hashSelection (Some pindex)
               else if \<not> fSelected
               then SelectBlock_loop E mapSelectedBlocks nSelectionIntervalStop nStakeModifierPrev rest
                      True hashSelection (Some pindex)
               else SelectBlock_loop E mapSelectedBlocks nSelectionIntervalStop nStakeModifierPrev rest
                      fSelected hashBest pindexSelected)"

definition SelectBlockFromCandidates ::
  "env \<Rightarrow> (int \<times> uint256) list \<Rightarrow> (uint256 \<Rightarrow> CBlockIndex option) \<Rightarrow> int \<Rightarrow> uint64 \<Rightarrow>
   ret \<times> CBlockIndex option" where
  "SelectBlockFromCandidates E vSortedByTimestamp mapSelectedBlocks nSelectionIntervalStop
      nStakeModifierPrev =
     SelectBlock_loop E mapSelectedBlocks nSelectionIntervalStop nStakeModifierPrev
       vSortedByTimestamp False 0 None"

text \<open>
  The candidate loop of \<^verbatim>\<open>ComputeNextStakeModifier\<close>: walk back along
  \<^verbatim>\<open>pprev\<close> while the block time is not before the start, pushing
  \<open>(time, hash)\<close>.
\<close>
fun collect_candidates :: "int \<Rightarrow> CBlockIndex list \<Rightarrow> (int \<times> uint256) list" where
  "collect_candidates nSelectionIntervalStart [] = []"
| "collect_candidates nSelectionIntervalStart (pindex # rest) =
     (if GetBlockTime pindex \<ge> nSelectionIntervalStart
      then (GetBlockTime pindex, GetBlockHash pindex) # collect_candidates nSelectionIntervalStart rest
      else [])"

text \<open>\<^verbatim>\<open>std::map::insert\<close> keeps an entry that is already there.\<close>
definition map_insert :: "('k \<Rightarrow> 'v option) \<Rightarrow> 'k \<Rightarrow> 'v \<Rightarrow> ('k \<Rightarrow> 'v option)" where
  "map_insert m k v = (if m k = None then m(k \<mapsto> v) else m)"

text \<open>
  The round loop of \<^verbatim>\<open>ComputeNextStakeModifier\<close> from round \<open>nRound\<close> on; the
  result carries \<^verbatim>\<open>nStakeModifierNew\<close>.
\<close>
function ModifierRounds ::
  "env \<Rightarrow> (int \<times> uint256) list \<Rightarrow> uint64 \<Rightarrow> nat \<Rightarrow> int \<Rightarrow> (uint256 \<Rightarrow> CBlockIndex option) \<Rightarrow>
   uint64 \<Rightarrow> ret \<times> uint64" where
  "ModifierRounds E vSortedByTimestamp nStakeModifierPrev nRound nSelectionIntervalStop
      mapSelectedBlocks nStakeModifierNew =
     (if int nRound < min 64 (int (length vSortedByTimestamp))
      then (case GetStakeModifierSelectionIntervalSection (params E) (int nRound) of
              None \<Rightarrow> (Undefined AssertionFailed, nStakeModifierNew)
            | Some s \<Rightarrow>
                (case SelectBlockFromCandidates E vSortedByTimestamp mapSelectedBlocks
                        (nSelectionIntervalStop + s) nStakeModifierPrev of
                   (r, sel) \<Rightarrow>
                     if r \<noteq> Ret_true then (Ret_error (UnableToSelectBlock nRound), nStakeModifierNew)
                     else (case sel of
                             None \<Rightarrow> (Undefined NullDereference, nStakeModifierNew)
                           | Some pindex \<Rightarrow>
                               ModifierRounds E vSortedByTimestamp nStakeModifierPrev (Suc nRound)
                                 (nSelectionIntervalStop + s)
                                 (map_insert mapSelectedBlocks (GetBlockHash pindex) pindex)
                                 (nStakeModifierNew OR
                                    push_bit nRound (of_bool (GetStakeEntropyBit pindex))))))
      else (Ret_true, nStakeModifierNew))"
  by pat_completeness auto
termination
  by (relation "measure (\<lambda>(E, v, m, nRound, stop, sel, new). 64 - nRound)") auto

text \<open>
  \<^verbatim>\<open>ComputeNextStakeModifier\<close>. The result carries the reference parameters
  \<^verbatim>\<open>nStakeModifier\<close> and \<^verbatim>\<open>fGeneratedStakeModifier\<close>. The two divisions by
  \<^verbatim>\<open>nModifierInterval\<close> and the division by \<^verbatim>\<open>nTargetSpacing\<close> in the
  argument of \<^verbatim>\<open>reserve\<close> have no result when the divisor is zero. The quotient
  passed to \<^verbatim>\<open>reserve\<close> is converted to the unsigned 64-bit \<^verbatim>\<open>size_type\<close>,
  and \<^verbatim>\<open>reserve\<close> throws \<^verbatim>\<open>std::length_error\<close> when that exceeds
  \<^verbatim>\<open>max_size()\<close>, as it does for every negative quotient; a permitted
  \<^verbatim>\<open>reserve\<close> changes no value. \<^verbatim>\<open>std::sort\<close> orders the pairs by time,
  then by hash; pairs that compare equal are equal, so the sorted vector is \<open>sort\<close> of the
  list.
\<close>
definition ComputeNextStakeModifier :: "env \<Rightarrow> CBlockIndex list \<Rightarrow> ret \<times> uint64 \<times> bool" where
  "ComputeNextStakeModifier E pindexPrev =
     (case pindexPrev of
        [] \<Rightarrow> (Ret_true, 0, True)
      | prev # ancestors \<Rightarrow>
          (case GetLastStakeModifier pindexPrev of
             Inl e \<Rightarrow> (Ret_error UnableToGetLastModifier, 0, False)
           | Inr (nStakeModifier0, nModifierTime) \<Rightarrow>
               if nModifierInterval (params E) = 0
               then (Undefined DivisionByZero, nStakeModifier0, False)
               else if nModifierTime sdiv nModifierInterval (params E)
                         \<ge> GetBlockTime prev sdiv nModifierInterval (params E)
               then (Ret_true, nStakeModifier0, False)
               else if nTargetSpacing (params E) = 0
               then (Undefined DivisionByZero, nStakeModifier0, False)
               else if (64 * nModifierInterval (params E) sdiv nTargetSpacing (params E)) mod 2 ^ 64
                         > vector_max_size E
               then (Undefined LengthError, nStakeModifier0, False)
               else (case GetStakeModifierSelectionInterval (params E) of
                       None \<Rightarrow> (Undefined AssertionFailed, nStakeModifier0, False)
                     | Some nSelectionInterval \<Rightarrow>
                         let nSelectionIntervalStart =
                               (GetBlockTime prev sdiv nModifierInterval (params E))
                                 * nModifierInterval (params E) - nSelectionInterval;
                             vSortedByTimestamp =
                               sort (rev (collect_candidates nSelectionIntervalStart pindexPrev))
                         in case ModifierRounds E vSortedByTimestamp nStakeModifier0 0
                                   nSelectionIntervalStart (\<lambda>k. None) 0 of
                              (r, nStakeModifierNew) \<Rightarrow>
                                if r = Ret_true then (Ret_true, nStakeModifierNew, True)
                                else (r, nStakeModifier0, False))))"

subsection \<open>Kernel stake modifier (V1)\<close>

text \<open>
  The loop of \<^verbatim>\<open>GetKernelStakeModifier\<close> at node \<^verbatim>\<open>pindex\<close>, with the time of
  \<^verbatim>\<open>pindexFrom\<close> and the running \<^verbatim>\<open>nStakeModifierHeight\<close> and
  \<^verbatim>\<open>nStakeModifierTime\<close>. The result carries \<^verbatim>\<open>nStakeModifier\<close>, height and
  time.
\<close>
fun KernelStakeModifier_loop ::
  "env \<Rightarrow> bool \<Rightarrow> int \<Rightarrow> int \<Rightarrow> chain_node \<Rightarrow> int \<Rightarrow> int \<Rightarrow> ret \<times> uint64 \<times> int \<times> int" where
  "KernelStakeModifier_loop E fPrintProofOfStake nTimeFrom nStakeModifierSelectionInterval
      (ChainNode pindex None) nStakeModifierHeight nStakeModifierTime =
     (if nStakeModifierTime < nTimeFrom + nStakeModifierSelectionInterval
      then (if fPrintProofOfStake \<or>
               GetBlockTime pindex + nStakeMinAge (params E) - nStakeModifierSelectionInterval
                 > GetAdjustedTime E
            then (Ret_error ReachedBestBlock, 0, nStakeModifierHeight, nStakeModifierTime)
            else (Ret_false, 0, nStakeModifierHeight, nStakeModifierTime))
      else (Ret_true, nStakeModifier pindex, nStakeModifierHeight, nStakeModifierTime))"
| "KernelStakeModifier_loop E fPrintProofOfStake nTimeFrom nStakeModifierSelectionInterval
      (ChainNode pindex (Some next)) nStakeModifierHeight nStakeModifierTime =
     (if nStakeModifierTime < nTimeFrom + nStakeModifierSelectionInterval
      then (if GeneratedStakeModifier (blk next)
            then KernelStakeModifier_loop E fPrintProofOfStake nTimeFrom
                   nStakeModifierSelectionInterval next (nHeight (blk next)) (GetBlockTime (blk next))
            else KernelStakeModifier_loop E fPrintProofOfStake nTimeFrom
                   nStakeModifierSelectionInterval next nStakeModifierHeight nStakeModifierTime)
      else (Ret_true, nStakeModifier pindex, nStakeModifierHeight, nStakeModifierTime))"

definition GetKernelStakeModifier ::
  "env \<Rightarrow> uint256 \<Rightarrow> int \<Rightarrow> int \<Rightarrow> bool \<Rightarrow> ret \<times> uint64 \<times> int \<times> int" where
  "GetKernelStakeModifier E hashBlockFrom nStakeModifierHeight nStakeModifierTime
      fPrintProofOfStake =
     (case mapBlockIndex E hashBlockFrom of
        None \<Rightarrow> (Ret_error BlockNotIndexed, 0, nStakeModifierHeight, nStakeModifierTime)
      | Some pindexFrom \<Rightarrow>
          (case GetStakeModifierSelectionInterval (params E) of
             None \<Rightarrow> (Undefined AssertionFailed, 0, nHeight (blk pindexFrom),
                       GetBlockTime (blk pindexFrom))
           | Some nStakeModifierSelectionInterval \<Rightarrow>
               KernelStakeModifier_loop E fPrintProofOfStake (GetBlockTime (blk pindexFrom))
                 nStakeModifierSelectionInterval pindexFrom (nHeight (blk pindexFrom))
                 (GetBlockTime (blk pindexFrom))))"

subsection \<open>Kernel hash checks\<close>

text \<open>
  \<^verbatim>\<open>CheckStakeKernelHashV1\<close>. The result carries the reference parameters
  \<^verbatim>\<open>hashProofOfStake\<close> and \<^verbatim>\<open>targetProofOfStake\<close>, whose values at the call
  are arguments. \<^verbatim>\<open>txPrev.vout[prevout.n]\<close> has no defined result out of range, and
  the division of an \<^verbatim>\<open>arith_uint256\<close> by zero has none.
\<close>
definition CheckStakeKernelHashV1 ::
  "env \<Rightarrow> uint32 \<Rightarrow> CBlock \<Rightarrow> uint32 \<Rightarrow> CTransaction \<Rightarrow> COutPoint \<Rightarrow> uint32 \<Rightarrow>
   uint256 \<Rightarrow> uint256 \<Rightarrow> bool \<Rightarrow> ret \<times> uint256 \<times> uint256" where
  "CheckStakeKernelHashV1 E nBits blockFrom nTxPrevOffset txPrev outpoint nTimeTx
      hashProofOfStake targetProofOfStake fPrintProofOfStake =
     (if nTimeTx < nTime txPrev
      then (Ret_error NTimeViolation, hashProofOfStake, targetProofOfStake)
      else
        let nTimeBlockFrom = (word_of_int (block_GetBlockTime blockFrom) :: uint32) in
        if uint nTimeBlockFrom + nStakeMinAge (params E) > uint nTimeTx
        then (Ret_error MinAgeViolation, hashProofOfStake, targetProofOfStake)
        else if \<not> unat (prevout_n outpoint) < length (vout txPrev)
        then (Undefined IndexOutOfRange, hashProofOfStake, targetProofOfStake)
        else if (word_of_int (COIN E) :: uint256) = 0
        then (Undefined DivisionByZero, hashProofOfStake, targetProofOfStake)
        else
          let bnTargetPerCoinDay = arith_SetCompact E nBits;
              nValueIn = nValue (vout txPrev ! unat (prevout_n outpoint));
              hashBlockFrom = block_GetHash blockFrom;
              bnCoinDayWeight =
                arith_times_int64 E (ucast nValueIn)
                    (GetWeight (params E) (uint (nTime txPrev)) (uint nTimeTx))
                  div word_of_int (COIN E) div (24 * 60 * 60);
              target = bnCoinDayWeight * bnTargetPerCoinDay
          in case GetKernelStakeModifier E hashBlockFrom 0 0 fPrintProofOfStake of
               (r, nStakeModifier1, nStakeModifierHeight, nStakeModifierTime) \<Rightarrow>
                 (case r of
                    Undefined f \<Rightarrow> (Undefined f, hashProofOfStake, target)
                  | Ret_false \<Rightarrow> (Ret_false, hashProofOfStake, target)
                  | Ret_error e \<Rightarrow> (Ret_false, hashProofOfStake, target)
                  | Ret_true \<Rightarrow>
                      let hash = Hash E (ser_u64 nStakeModifier1 @ ser_u32 nTimeBlockFrom @
                                   ser_u32 nTxPrevOffset @ ser_u32 (nTime txPrev) @
                                   ser_u32 (prevout_n outpoint) @ ser_u32 nTimeTx)
                      in if hash > target then (Ret_false, hash, target)
                         else (Ret_true, hash, target)))"

text \<open>
  \<^verbatim>\<open>CheckStakeKernelHashV2\<close>. \<^verbatim>\<open>CBigNum\<close> is an integer of any size: the
  weighted target is the product of integers, and the hash is compared with it as the
  non-negative integer it denotes. \<^verbatim>\<open>targetProofOfStake\<close> is not written.
\<close>
definition CheckStakeKernelHashV2 ::
  "env \<Rightarrow> CBlockIndex \<Rightarrow> uint32 \<Rightarrow> uint32 \<Rightarrow> CTransaction \<Rightarrow> COutPoint \<Rightarrow> uint32 \<Rightarrow>
   uint256 \<Rightarrow> uint256 \<Rightarrow> bool \<Rightarrow> ret \<times> uint256 \<times> uint256" where
  "CheckStakeKernelHashV2 E pindexPrev nBits nTimeBlockFrom txPrev outpoint nTimeTx
      hashProofOfStake targetProofOfStake fPrintProofOfStake =
     (if nTimeTx < nTime txPrev
      then (Ret_error NTimeViolation, hashProofOfStake, targetProofOfStake)
      else if uint nTimeBlockFrom + nStakeMinAge (params E) > uint nTimeTx
      then (Ret_error MinAgeViolation, hashProofOfStake, targetProofOfStake)
      else if \<not> unat (prevout_n outpoint) < length (vout txPrev)
      then (Undefined IndexOutOfRange, hashProofOfStake, targetProofOfStake)
      else
        let bnTarget0 = CBigNum_SetCompact E nBits;
            nValueIn = nValue (vout txPrev ! unat (prevout_n outpoint));
            bnWeight = sint nValueIn;
            bnTarget = bnTarget0 * bnWeight;
            nStakeModifier1 = nStakeModifier pindexPrev;
            hash = Hash E (ser_u64 nStakeModifier1 @ ser_u32 nTimeBlockFrom @
                     ser_u32 (nTime txPrev) @ ser_u256 (prevout_hash outpoint) @
                     ser_u32 (prevout_n outpoint) @ ser_u32 nTimeTx)
        in if uint hash > bnTarget then (Ret_false, hash, targetProofOfStake)
           else (Ret_true, hash, targetProofOfStake))"

text \<open>
  \<^verbatim>\<open>CheckStakeKernelHash\<close>. The \<^verbatim>\<open>int64_t\<close> block time is converted to the
  \<^verbatim>\<open>unsigned int\<close> parameter of the V2 check.
\<close>
definition CheckStakeKernelHash ::
  "env \<Rightarrow> CBlockIndex \<Rightarrow> uint32 \<Rightarrow> CBlock \<Rightarrow> uint32 \<Rightarrow> CTransaction \<Rightarrow> COutPoint \<Rightarrow> uint32 \<Rightarrow>
   uint256 \<Rightarrow> uint256 \<Rightarrow> bool \<Rightarrow> CParams \<Rightarrow> ret \<times> uint256 \<times> uint256" where
  "CheckStakeKernelHash E pindexPrev nBits blockFrom nTxPrevOffset txPrev outpoint nTimeTx
      hashProofOfStake targetProofOfStake fPrintProofOfStake consensusParams =
     (if nHeight pindexPrev + 1 > nProtocolV2Height consensusParams
      then CheckStakeKernelHashV2 E pindexPrev nBits (word_of_int (block_GetBlockTime blockFrom))
             txPrev outpoint nTimeTx hashProofOfStake targetProofOfStake fPrintProofOfStake
      else CheckStakeKernelHashV1 E nBits blockFrom nTxPrevOffset txPrev outpoint nTimeTx
             hashProofOfStake targetProofOfStake fPrintProofOfStake)"

definition CheckCoinStakeTimestamp :: "env \<Rightarrow> int \<Rightarrow> int \<Rightarrow> int \<Rightarrow> bool" where
  "CheckCoinStakeTimestamp E nHeight1 nTimeBlock nTimeTx =
     (if nHeight1 > nProtocolV2Height (params E)
      then (nTimeBlock = nTimeTx) \<and> ((nTimeTx AND STAKE_TIMESTAMP_MASK E) = 0)
      else (nTimeBlock = nTimeTx))"

subsection \<open>Validator\<close>

text \<open>
  The outcome of \<^verbatim>\<open>CheckProofOfStake\<close>: \<^verbatim>\<open>return true\<close>, a plain
  \<^verbatim>\<open>return error(...)\<close>, \<^verbatim>\<open>return state.DoS(level, error(...))\<close> with its
  level, or no defined result.
\<close>
datatype verdict = Accepted | Rejected err | DoS nat err | Aborted fault

text \<open>
  \<^verbatim>\<open>CheckProofOfStake\<close>. The coin view, the block tree and the disk are the
  functions of the environment; \<^verbatim>\<open>tx.vin[0]\<close> has no defined result when the
  transaction has no input. \<^verbatim>\<open>CheckStakeKernelHash\<close> is called without its last
  argument, which defaults to the consensus parameters of the chain.
\<close>
definition CheckProofOfStake ::
  "env \<Rightarrow> CBlockIndex \<Rightarrow> CTransaction \<Rightarrow> uint32 \<Rightarrow> uint256 \<Rightarrow> uint256 \<Rightarrow>
   verdict \<times> uint256 \<times> uint256" where
  "CheckProofOfStake E pindexPrev tx nBits hashProofOfStake targetProofOfStake =
     (if \<not> IsCoinStake E tx then (Rejected NotCoinStake, hashProofOfStake, targetProofOfStake)
      else case vin tx of
        [] \<Rightarrow> (Aborted IndexOutOfRange, hashProofOfStake, targetProofOfStake)
      | txin # others \<Rightarrow>
      (case GetCoin E (prevout txin) of
        None \<Rightarrow> (DoS 100 PrevoutDoesNotExist, hashProofOfStake, targetProofOfStake)
      | Some coinPrev \<Rightarrow>
      (case GetAncestor E pindexPrev (coin_nHeight coinPrev) of
        None \<Rightarrow> (DoS 100 BlockCannotBeLoaded, hashProofOfStake, targetProofOfStake)
      | Some blockFrom \<Rightarrow>
      (case ReadBlockFromDisk E blockFrom of
        None \<Rightarrow> (DoS 100 BlockNotFound, hashProofOfStake, targetProofOfStake)
      | Some block \<Rightarrow>
      (case GetTransaction E (prevout_hash (prevout txin)) of
        None \<Rightarrow> (DoS 1 PrevoutNotInChain, hashProofOfStake, targetProofOfStake)
      | Some txPrev \<Rightarrow>
          let nTxOffset = ReadTxOffsetIndex E (nHeight pindexPrev) 0 in
          if \<not> VerifySignature E coinPrev (prevout_hash (prevout txin)) tx
          then (DoS 100 VerifySignatureFailed, hashProofOfStake, targetProofOfStake)
          else
            (case CheckStakeKernelHash E pindexPrev nBits block (word_of_int nTxOffset) txPrev
                    (prevout txin) (nTime tx) hashProofOfStake targetProofOfStake (fDebug E)
                    (params E) of
               (r, hashProofOfStake1, targetProofOfStake1) \<Rightarrow>
                 (case r of
                    Ret_true \<Rightarrow> (Accepted, hashProofOfStake1, targetProofOfStake1)
                  | Undefined f \<Rightarrow> (Aborted f, hashProofOfStake1, targetProofOfStake1)
                  | Ret_false \<Rightarrow> (DoS 1 CheckKernelFailed, hashProofOfStake1, targetProofOfStake1)
                  | Ret_error e \<Rightarrow>
                      (DoS 1 CheckKernelFailed, hashProofOfStake1, targetProofOfStake1))))))))"

subsection \<open>The round of candidate selection as the specification words it\<close>

text \<open>
  Section 4.2.1 of the specification: iterate the candidates in order, keeping
  \<open>best\<close> (the best selection hash and its block, if any). A candidate that the block
  index does not hold ends the round with an error, as in the source.
\<close>
fun select_round ::
  "env \<Rightarrow> uint256 set \<Rightarrow> int \<Rightarrow> uint64 \<Rightarrow> (int \<times> uint256) list \<Rightarrow>
   (uint256 \<times> CBlockIndex) option \<Rightarrow> err + (uint256 \<times> CBlockIndex) option" where
  "select_round E selected selection_stop prev_modifier [] best = Inr best"
| "select_round E selected selection_stop prev_modifier (c # candidates) best =
     (case mapBlockIndex E (snd c) of
        None \<Rightarrow> Inl CandidateNotIndexed
      | Some node \<Rightarrow>
          let candidate = blk node in
          if best \<noteq> None \<and> GetBlockTime candidate > selection_stop then Inr best
          else if GetBlockHash candidate \<in> selected
          then select_round E selected selection_stop prev_modifier candidates best
          else
            let h = Hash E (ser_u256 (hashProof candidate) @ ser_u64 prev_modifier);
                selection_hash = (if IsProofOfStake candidate then drop_bit 32 h else h)
            in if (case best of None \<Rightarrow> True | Some (best_hash, b) \<Rightarrow> selection_hash < best_hash)
               then select_round E selected selection_stop prev_modifier candidates
                      (Some (selection_hash, candidate))
               else select_round E selected selection_stop prev_modifier candidates best)"

text \<open>The last node along \<^verbatim>\<open>pnext\<close>: the chain tip.\<close>
fun chain_tip :: "chain_node \<Rightarrow> CBlockIndex" where
  "chain_tip (ChainNode pindex None) = pindex"
| "chain_tip (ChainNode pindex (Some next)) = chain_tip next"

text \<open>
  Section 4.3.3 of the specification: the walk from a node, with the running modifier
  time \<open>modifier_time\<close> (updated only at nodes that generated a modifier), reaches the
  chain tip before the modifier time is at least \<open>bound\<close>. That is, the modifier time
  is below the bound at the node, and at every node after it up to the tip.
\<close>
fun reaches_tip_before :: "int \<Rightarrow> chain_node \<Rightarrow> int \<Rightarrow> bool" where
  "reaches_tip_before bound (ChainNode node None) modifier_time = (modifier_time < bound)"
| "reaches_tip_before bound (ChainNode node (Some next)) modifier_time =
     (modifier_time < bound \<and>
      reaches_tip_before bound next
        (if GeneratedStakeModifier (blk next) then GetBlockTime (blk next) else modifier_time))"

text \<open>
  The same condition read off the chain: the nodes after a node up to the tip, and the
  modifier time after walking through some of them.
\<close>
fun successors :: "chain_node \<Rightarrow> CBlockIndex list" where
  "successors (ChainNode node None) = []"
| "successors (ChainNode node (Some next)) = blk next # successors next"

definition modifier_time_after :: "int \<Rightarrow> CBlockIndex list \<Rightarrow> int" where
  "modifier_time_after t0 visited =
     fold (\<lambda>b t. if GeneratedStakeModifier b then GetBlockTime b else t) visited t0"

text \<open>
  Modelled from the spec: \<^verbatim>\<open>bignum.h\<close> is not among the sources. The expansion of
  a compact target in Bitcoin's encoding: the top byte is the size in bytes, the low 23
  bits are the mantissa, bit 23 is the sign. Used for concrete inputs only.
\<close>
definition expand_compact :: "uint32 \<Rightarrow> int" where
  "expand_compact nBits =
     (let nSize = unat (drop_bit 24 nBits);
          nWord = uint (nBits AND 0x007fffff);
          magnitude = (if nSize \<le> 3 then drop_bit (8 * (3 - nSize)) nWord
                       else push_bit (8 * (nSize - 3)) nWord)
      in if nBits AND 0x00800000 \<noteq> 0 then - magnitude else magnitude)"

subsection \<open>Concrete inputs\<close>

text \<open>
  Parameters and an environment for evaluating the definitions: a modifier interval of ten
  minutes, a minimum age of one hour, the switch to V2 at height 1000. The functions of
  the environment are stand-ins: the hash of a byte string is its length, and a compact
  target expands to its own value.
\<close>
definition params0 :: CParams where
  "params0 = \<lparr>nStakeMinAge = 3600, nStakeMaxAge = 7776000, nModifierInterval = 600,
     nTargetSpacing = 60, nProtocolV2Height = 1000\<rparr>"

definition env0 :: env where
  "env0 = \<lparr>params = params0, mapBlockIndex = (\<lambda>h. None), fDebug = False,
     GetAdjustedTime = 10000, COIN = 100000000, STAKE_TIMESTAMP_MASK = 15,
     Hash = (\<lambda>bytes. word_of_nat (length bytes)),
     CBigNum_SetCompact = (\<lambda>nBits. uint nBits),
     arith_SetCompact = (\<lambda>nBits. ucast nBits),
     arith_times_int64 = (\<lambda>a b. a * word_of_int b),
     vector_max_size = 230584300921369395,
     IsCoinStake = (\<lambda>tx. True), GetCoin = (\<lambda>outpoint. None),
     GetAncestor = (\<lambda>pindex h. None), ReadBlockFromDisk = (\<lambda>pindex. None),
     GetTransaction = (\<lambda>txid. None), ReadTxOffsetIndex = (\<lambda>h old. old),
     VerifySignature = (\<lambda>coin txid tx. True)\<rparr>"

text \<open>A block index node with the given height, time, hash, modifier and flags.\<close>
definition mk_index :: "int \<Rightarrow> int \<Rightarrow> uint256 \<Rightarrow> uint64 \<Rightarrow> bool \<Rightarrow> bool \<Rightarrow> CBlockIndex" where
  "mk_index h t bh m generated entropy =
     \<lparr>nHeight = h, GetBlockTime = t, GetBlockHash = bh, hashProof = bh,
      nStakeModifier = m, GeneratedStakeModifier = generated, GetStakeEntropyBit = entropy,
      IsProofOfStake = True\<rparr>"

text \<open>A transaction of the given time with one output of the given value.\<close>
definition mk_tx :: "uint32 \<Rightarrow> 64 word \<Rightarrow> CTransaction" where
  "mk_tx t v = \<lparr>nTime = t, vin = [\<lparr>prevout = \<lparr>prevout_hash = 9, prevout_n = 0\<rparr>\<rparr>],
     vout = [\<lparr>nValue = v\<rparr>]\<rparr>"

text \<open>
  A block index of two nodes: the block of hash 1 at time 0, whose successor of hash 2 at
  time 30000 is the tip; neither generated a modifier.
\<close>
definition index_tip :: "uint256 \<Rightarrow> chain_node option" where
  "index_tip h =
     (if h = 1 then Some (ChainNode (mk_index 1 0 1 0 False False)
                            (Some (ChainNode (mk_index 2 30000 2 0 False False) None)))
      else if h = 2 then Some (ChainNode (mk_index 2 30000 2 0 False False) None)
      else None)"

text \<open>
  A block index of two nodes: the block of hash 1 at time 0, whose successor of hash 2 at
  time 30000 is the tip and generated the modifier 9.
\<close>
definition index_gen :: "uint256 \<Rightarrow> chain_node option" where
  "index_gen h =
     (if h = 1 then Some (ChainNode (mk_index 1 0 1 0 False False)
                            (Some (ChainNode (mk_index 2 30000 2 9 True False) None)))
      else if h = 2 then Some (ChainNode (mk_index 2 30000 2 9 True False) None)
      else None)"

text \<open>
  A chain of two nodes, the older of which recorded the modifier 5 in an earlier epoch,
  and the block index that holds them.
\<close>
definition chain_two :: "CBlockIndex list" where
  "chain_two = [mk_index 2 30000 2 0 False True, mk_index 1 0 1 5 True False]"

definition index_two :: "uint256 \<Rightarrow> chain_node option" where
  "index_two h =
     (if h = 1 then Some (ChainNode (mk_index 1 0 1 5 True False)
                            (Some (ChainNode (mk_index 2 30000 2 0 False True) None)))
      else if h = 2 then Some (ChainNode (mk_index 2 30000 2 0 False True) None)
      else None)"

text \<open>A block index that holds the block of hash 1 only.\<close>
definition index_one :: "uint256 \<Rightarrow> chain_node option" where
  "index_one h =
     (if h = 1 then Some (ChainNode (mk_index 1 1000 1 0 True False) None) else None)"

text \<open>
  A chain of two nodes that carry the same block hash 7, and a block index that holds
  that hash; the older node recorded the modifier 5.
\<close>
definition chain_dup :: "CBlockIndex list" where
  "chain_dup = [mk_index 2 1700 7 0 False True, mk_index 1 1000 7 5 True True]"

definition index_dup :: "uint256 \<Rightarrow> chain_node option" where
  "index_dup h =
     (if h = 7 then Some (ChainNode (mk_index 2 1700 7 0 False True) None) else None)"

text \<open>
  An environment in which every collaborator of the validator answers: the staked output
  is in the block of height 5 and time \<open>tFrom\<close>, and the staked transaction has time
  \<open>tPrev\<close> and one output of value 100.
\<close>
definition env_stake :: "int \<Rightarrow> uint32 \<Rightarrow> env" where
  "env_stake tFrom tPrev =
     env0\<lparr>GetCoin := (\<lambda>outpoint. Some \<lparr>coin_nHeight = 5\<rparr>),
          GetAncestor := (\<lambda>pindex h. Some (mk_index 5 tFrom 4 0 True False)),
          ReadBlockFromDisk := (\<lambda>pindex. Some \<lparr>block_GetBlockTime = tFrom, block_GetHash = 4\<rparr>),
          GetTransaction := (\<lambda>txid. Some (mk_tx tPrev 100))\<rparr>"

section \<open>Properties\<close>

subsection \<open>The loops\<close>

lemma SelectionInterval_loop_sum:
  "0 \<le> n \<Longrightarrow> n \<le> 64 \<Longrightarrow>
   SelectionInterval_loop p n acc =
     Some (acc + (\<Sum>k = n..63. nModifierInterval p * 63 sdiv (63 + (63 - k) * (MODIFIER_INTERVAL_RATIO - 1))))"
proof (induction p n acc rule: SelectionInterval_loop.induct)
  case (1 p nSection acc)
  show ?case
  proof (cases "nSection < 64")
    case True
    let ?f = "\<lambda>k. nModifierInterval p * 63 sdiv (63 + (63 - k) * (MODIFIER_INTERVAL_RATIO - 1))"
    have sec: "GetStakeModifierSelectionIntervalSection p nSection = Some (?f nSection)"
      using True "1.prems" by (simp add: GetStakeModifierSelectionIntervalSection_def)
    have ih: "SelectionInterval_loop p (nSection + 1) (acc + ?f nSection) =
        Some (acc + ?f nSection + (\<Sum>k = nSection + 1..63. ?f k))"
      using "1.IH"[OF True sec] True "1.prems" by simp
    have split: "{nSection..63} = insert nSection {nSection + 1..63}"
      using True by auto
    have "(\<Sum>k = nSection..63. ?f k) = ?f nSection + (\<Sum>k = nSection + 1..63. ?f k)"
      by (subst split) simp
    then show ?thesis
      using True sec ih by (subst SelectionInterval_loop.simps) simp
  next
    case False
    then have "nSection = 64" using "1.prems" by simp
    then show ?thesis by (subst SelectionInterval_loop.simps) simp
  qed
qed

lemma GetStakeModifierSelectionInterval_sum:
  "GetStakeModifierSelectionInterval p =
     Some (\<Sum>k = 0..63. nModifierInterval p * 63 sdiv (63 + (63 - k) * (MODIFIER_INTERVAL_RATIO - 1)))"
  unfolding GetStakeModifierSelectionInterval_def
  using SelectionInterval_loop_sum[of 0 p 0] by simp

lemma all_le_Suc: "(\<forall>k \<le> Suc n. P k) \<longleftrightarrow> P 0 \<and> (\<forall>k \<le> n. P (Suc k))"
  by (metis Suc_le_mono le0 not0_implies_Suc)

text \<open>
  The walk reaches the tip before the bound exactly when the modifier time is below the
  bound after each number of steps, from none to all.
\<close>
lemma reaches_tip_before_iff:
  "reaches_tip_before bound nd t \<longleftrightarrow>
     (\<forall>k \<le> length (successors nd).
         modifier_time_after t (take k (successors nd)) < bound)"
proof (induction bound nd t rule: reaches_tip_before.induct)
  case (1 bound node t)
  then show ?case by (simp add: modifier_time_after_def)
next
  case (2 bound node nx t)
  show ?case
    using 2 by (simp add: all_le_Suc modifier_time_after_def)
qed

lemma KernelStakeModifier_loop_fst:
  "fst (KernelStakeModifier_loop E f tF sel nd h t) =
     (if reaches_tip_before (tF + sel) nd t
      then (if f \<or> GetBlockTime (chain_tip nd) + nStakeMinAge (params E) - sel
                    > GetAdjustedTime E
            then Ret_error ReachedBestBlock else Ret_false)
      else Ret_true)"
  by (induction E f tF sel nd h t rule: KernelStakeModifier_loop.induct) auto

lemma GetKernelStakeModifier_fst:
  assumes "mapBlockIndex E hashBlockFrom = Some pindexFrom"
    and "GetStakeModifierSelectionInterval (params E) = Some sel"
  shows "fst (GetKernelStakeModifier E hashBlockFrom h0 t0 f) =
     (if reaches_tip_before (GetBlockTime (blk pindexFrom) + sel) pindexFrom
           (GetBlockTime (blk pindexFrom))
      then (if f \<or> GetBlockTime (chain_tip pindexFrom) + nStakeMinAge (params E) - sel
                    > GetAdjustedTime E
            then Ret_error ReachedBestBlock else Ret_false)
      else Ret_true)"
  using assms by (simp add: GetKernelStakeModifier_def KernelStakeModifier_loop_fst)

subsection \<open>Selection interval\<close>

text \<open>
  Claim C5. For every section index \<open>n\<close> from 0 to 63 the section is
  \<open>modifier_interval * 63 / (63 + (63 - n) * (modifier_interval_ratio - 1))\<close> with truncating
  division, and the selection interval is the sum of these 64 sections. It is this sum
  that both users work with. The modifier generator, when it generates (a non-null
  \<open>prev\<close> in a later epoch than the last modifier, and the \<^verbatim>\<open>reserve\<close> of line 148
  permitted), starts its selection at
  \<open>(prev.block_time / modifier_interval) * modifier_interval\<close> minus the sum: from there it
  collects the candidates and counts the stop times of the rounds. The kernel-modifier
  lookup of V1, for an indexed block, succeeds exactly when its walk does not reach the
  tip before the modifier time is at least \<open>block_from.block_time\<close> plus the sum.
\<close>
theorem selection_interval_is_sum_of_sections:
  "(n \<in> {0..63} \<longrightarrow>
      GetStakeModifierSelectionIntervalSection (params E) n =
        Some (nModifierInterval (params E) * 63
                sdiv (63 + (63 - n) * (MODIFIER_INTERVAL_RATIO - 1))))
   \<and> GetStakeModifierSelectionInterval (params E) =
        Some (\<Sum>k = 0..63. nModifierInterval (params E) * 63
                sdiv (63 + (63 - k) * (MODIFIER_INTERVAL_RATIO - 1)))
   \<and> (GetLastStakeModifier (prev # ancestors) = Inr (M, T_mod) \<longrightarrow>
        nModifierInterval (params E) \<noteq> 0 \<longrightarrow>
        T_mod sdiv nModifierInterval (params E)
          < GetBlockTime prev sdiv nModifierInterval (params E) \<longrightarrow>
        nTargetSpacing (params E) \<noteq> 0 \<longrightarrow>
        (64 * nModifierInterval (params E) sdiv nTargetSpacing (params E)) mod 2 ^ 64
          \<le> vector_max_size E \<longrightarrow>
        ComputeNextStakeModifier E (prev # ancestors) =
          (let selection_start =
                 (GetBlockTime prev sdiv nModifierInterval (params E))
                   * nModifierInterval (params E)
                 - (\<Sum>k = 0..63. nModifierInterval (params E) * 63
                      sdiv (63 + (63 - k) * (MODIFIER_INTERVAL_RATIO - 1)));
               candidates = sort (rev (collect_candidates selection_start (prev # ancestors)))
           in case ModifierRounds E candidates M 0 selection_start (\<lambda>k. None) 0 of
                (r, new_modifier) \<Rightarrow>
                  if r = Ret_true then (Ret_true, new_modifier, True) else (r, M, False)))
   \<and> (mapBlockIndex E hashBlockFrom = Some pindexFrom \<longrightarrow>
        (fst (GetKernelStakeModifier E hashBlockFrom h0 t0 fPrint) = Ret_true
         \<longleftrightarrow> \<not> reaches_tip_before
                 (GetBlockTime (blk pindexFrom)
                    + (\<Sum>k = 0..63. nModifierInterval (params E) * 63
                         sdiv (63 + (63 - k) * (MODIFIER_INTERVAL_RATIO - 1))))
                 pindexFrom (GetBlockTime (blk pindexFrom))))"
proof (intro conjI impI)
  assume "n \<in> {0..63}"
  then show "GetStakeModifierSelectionIntervalSection (params E) n =
        Some (nModifierInterval (params E) * 63
                sdiv (63 + (63 - n) * (MODIFIER_INTERVAL_RATIO - 1)))"
    by (simp add: GetStakeModifierSelectionIntervalSection_def)
next
  show "GetStakeModifierSelectionInterval (params E) =
        Some (\<Sum>k = 0..63. nModifierInterval (params E) * 63
                sdiv (63 + (63 - k) * (MODIFIER_INTERVAL_RATIO - 1)))"
    by (rule GetStakeModifierSelectionInterval_sum)
next
  assume "GetLastStakeModifier (prev # ancestors) = Inr (M, T_mod)"
    and "nModifierInterval (params E) \<noteq> 0"
    and "T_mod sdiv nModifierInterval (params E)
          < GetBlockTime prev sdiv nModifierInterval (params E)"
    and "nTargetSpacing (params E) \<noteq> 0"
    and "(64 * nModifierInterval (params E) sdiv nTargetSpacing (params E)) mod 2 ^ 64
          \<le> vector_max_size E"
  then show "ComputeNextStakeModifier E (prev # ancestors) =
          (let selection_start =
                 (GetBlockTime prev sdiv nModifierInterval (params E))
                   * nModifierInterval (params E)
                 - (\<Sum>k = 0..63. nModifierInterval (params E) * 63
                      sdiv (63 + (63 - k) * (MODIFIER_INTERVAL_RATIO - 1)));
               candidates = sort (rev (collect_candidates selection_start (prev # ancestors)))
           in case ModifierRounds E candidates M 0 selection_start (\<lambda>k. None) 0 of
                (r, new_modifier) \<Rightarrow>
                  if r = Ret_true then (Ret_true, new_modifier, True) else (r, M, False))"
    using GetStakeModifierSelectionInterval_sum[of "params E"]
    by (simp add: ComputeNextStakeModifier_def)
next
  assume "mapBlockIndex E hashBlockFrom = Some pindexFrom"
  then show "fst (GetKernelStakeModifier E hashBlockFrom h0 t0 fPrint) = Ret_true
         \<longleftrightarrow> \<not> reaches_tip_before
                 (GetBlockTime (blk pindexFrom)
                    + (\<Sum>k = 0..63. nModifierInterval (params E) * 63
                         sdiv (63 + (63 - k) * (MODIFIER_INTERVAL_RATIO - 1))))
                 pindexFrom (GetBlockTime (blk pindexFrom))"
    using GetKernelStakeModifier_fst[OF _ GetStakeModifierSelectionInterval_sum, of E hashBlockFrom
        pindexFrom h0 t0 fPrint]
    by simp
qed

text \<open>
  The theorem with the modifier interval of 600 seconds: section 10 is 223 and the sum is
  21135. The generator, at a \<open>prev\<close> of time 30000, starts at \<open>30000 - 21135 = 8865\<close>,
  so \<open>prev\<close> alone is a candidate and its entropy bit makes the modifier 1. The lookup
  from the block of time 0 reaches the tip of time 30000, which generated no modifier,
  and fails.
\<close>
theorem selection_interval_is_sum_of_sections_witness:
  "(10::int) \<in> {0..63}
   \<and> GetStakeModifierSelectionIntervalSection (params (env0\<lparr>mapBlockIndex := index_two\<rparr>)) 10
       = Some 223
   \<and> GetStakeModifierSelectionInterval (params (env0\<lparr>mapBlockIndex := index_two\<rparr>))
       = Some 21135
   \<and> GetLastStakeModifier chain_two = Inr (5, 0)
   \<and> (64 * nModifierInterval (params (env0\<lparr>mapBlockIndex := index_two\<rparr>))
         sdiv nTargetSpacing (params (env0\<lparr>mapBlockIndex := index_two\<rparr>))) mod 2 ^ 64
       \<le> vector_max_size (env0\<lparr>mapBlockIndex := index_two\<rparr>)
   \<and> ComputeNextStakeModifier (env0\<lparr>mapBlockIndex := index_two\<rparr>) chain_two
       = (Ret_true, 1, True)
   \<and> collect_candidates 8865 chain_two = [(30000, 2)]
   \<and> index_two 1 = Some (ChainNode (mk_index 1 0 1 5 True False)
                            (Some (ChainNode (mk_index 2 30000 2 0 False True) None)))
   \<and> reaches_tip_before (0 + 21135)
        (ChainNode (mk_index 1 0 1 5 True False)
           (Some (ChainNode (mk_index 2 30000 2 0 False True) None))) 0
   \<and> fst (GetKernelStakeModifier (env0\<lparr>mapBlockIndex := index_two\<rparr>) 1 0 0 False) \<noteq> Ret_true"
proof -
  let ?E = "env0\<lparr>mapBlockIndex := index_two\<rparr>"
  let ?prev = "mk_index 2 30000 2 0 False True"
  let ?anc = "[mk_index 1 0 1 5 True False]"
  let ?from = "ChainNode (mk_index 1 0 1 5 True False)
                 (Some (ChainNode (mk_index 2 30000 2 0 False True) None))"
  note inst = selection_interval_is_sum_of_sections
                [where n = 10 and E = ?E and prev = ?prev and ancestors = ?anc and M = 5
                   and T_mod = 0 and hashBlockFrom = 1 and pindexFrom = ?from
                   and ?h0.0 = 0 and ?t0.0 = 0 and fPrint = False]
  have p: "nModifierInterval (params ?E) = 600" "nTargetSpacing (params ?E) = 60"
    by (simp_all add: env0_def params0_def)
  have sec: "(600::int) * 63 sdiv (63 + (63 - 10) * (MODIFIER_INTERVAL_RATIO - 1)) = 223"
    by code_simp
  have total: "GetStakeModifierSelectionInterval (params ?E) = Some 21135"
    by code_simp
  have sum: "(\<Sum>k = 0..63. (600::int) * 63
                sdiv (63 + (63 - k) * (MODIFIER_INTERVAL_RATIO - 1))) = 21135"
    using inst total unfolding p by simp
  have last: "GetLastStakeModifier (?prev # ?anc) = Inr (5, 0)"
    by (simp add: mk_index_def)
  have t: "GetBlockTime (blk ?from) = 0" "GetBlockTime ?prev = 30000"
    by (simp_all add: mk_index_def)
  have epoch: "(0::int) sdiv 600 < 30000 sdiv 600"
    by (simp add: signed_divide_int_def)
  have room: "(64 * (600::int) sdiv 60) mod 2 ^ 64 \<le> vector_max_size ?E"
    by (simp add: env0_def signed_divide_int_def)
  have idx: "mapBlockIndex ?E 1 = Some ?from"
    by (simp add: index_two_def)
  have c: "chain_two = ?prev # ?anc"
    by (simp add: chain_two_def)
  have body: "(let selection_start = (30000 sdiv 600) * 600 - (21135::int);
                   candidates = sort (rev (collect_candidates selection_start (?prev # ?anc)))
               in case ModifierRounds ?E candidates 5 0 selection_start (\<lambda>k. None) 0 of
                    (r, new_modifier) \<Rightarrow>
                      if r = Ret_true then (Ret_true, new_modifier, True) else (r, 5, False))
              = (Ret_true, 1, True)"
    by code_simp
  have cands: "collect_candidates 8865 (?prev # ?anc) = [(30000, 2)]"
    by code_simp
  have early: "reaches_tip_before (0 + 21135) ?from 0"
    by code_simp
  have gen: "ComputeNextStakeModifier ?E (?prev # ?anc) = (Ret_true, 1, True)"
    using inst last epoch room unfolding p t sum body by simp
  have look: "fst (GetKernelStakeModifier ?E 1 0 0 False) \<noteq> Ret_true"
    using inst idx early unfolding p t sum by simp
  have s10: "GetStakeModifierSelectionIntervalSection (params ?E) 10 = Some 223"
    using inst unfolding p sec by simp
  show ?thesis
    unfolding c p
    using s10 total last room gen cands idx early look
    by (simp add: index_two_def)
qed

subsection \<open>Modifier engine\<close>



lemma SelectBlock_loop_refines:
  "(case select_round E (dom sel) stop m v best of
      Inl e \<Rightarrow>
        fst (SelectBlock_loop E sel stop m v (best \<noteq> None)
               (case best of None \<Rightarrow> hb | Some (bh, b) \<Rightarrow> bh) (map_option snd best))
          = Ret_error e
    | Inr r \<Rightarrow>
        SelectBlock_loop E sel stop m v (best \<noteq> None)
          (case best of None \<Rightarrow> hb | Some (bh, b) \<Rightarrow> bh) (map_option snd best)
          = (if r = None then Ret_false else Ret_true, map_option snd r))"
proof (induction v arbitrary: best hb)
  case Nil
  then show ?case by (cases best) auto
next
  case (Cons c v)
  show ?case
  proof (cases "mapBlockIndex E (snd c)")
    case None
    then show ?thesis by simp
  next
    case (Some node)
    let ?h0 = "Hash E (ser_u256 (hashProof (blk node)) @ ser_u64 m)"
    let ?h = "if IsProofOfStake (blk node) then drop_bit 32 ?h0 else ?h0"
    show ?thesis
    proof (cases best)
      case None
      show ?thesis
        using Cons.IH[of None hb] Cons.IH[of "Some (?h, blk node)" hb] Some None
        by (auto simp: Let_def domIff split: sum.splits)
    next
      case (Some bb)
      obtain bh b where bb: "bb = (bh, b)" by (cases bb)
      show ?thesis
        using Cons.IH[of "Some (bh, b)" hb] Cons.IH[of "Some (?h, blk node)" hb]
          \<open>mapBlockIndex E (snd c) = Some node\<close> Some bb
        by (auto simp: Let_def domIff split: sum.splits)
    qed
  qed
qed

text \<open>
  Claim C2, as the source has it. \<^verbatim>\<open>SelectBlockFromCandidates\<close> is the round of
  section 4.2.1: it scans the candidates in order; it stops as soon as a best candidate
  exists and the current candidate's block time exceeds the stop time; it skips candidates
  already selected; for each other candidate it hashes the serialization of
  \<open>(hash_proof, prev_modifier)\<close>, shifts the hash right by 32 bits for a proof-of-stake
  block, and takes the candidate exactly when no best is set or the hash is strictly less
  than the best. It fails when no candidate was selectable, and also, with an error,
  when the scan meets a candidate that the block index does not hold.
\<close>
theorem SelectBlockFromCandidates_is_select_round:
  "(case select_round E (dom mapSelectedBlocks) selection_stop prev_modifier candidates None of
      Inl e \<Rightarrow>
        fst (SelectBlockFromCandidates E candidates mapSelectedBlocks selection_stop prev_modifier)
          = Ret_error e
    | Inr None \<Rightarrow>
        SelectBlockFromCandidates E candidates mapSelectedBlocks selection_stop prev_modifier
          = (Ret_false, None)
    | Inr (Some (best_hash, best)) \<Rightarrow>
        SelectBlockFromCandidates E candidates mapSelectedBlocks selection_stop prev_modifier
          = (Ret_true, Some best))"
  using SelectBlock_loop_refines[of E mapSelectedBlocks selection_stop prev_modifier candidates None 0]
  by (auto simp: SelectBlockFromCandidates_def split: sum.splits option.splits)

text \<open>
  The theorem at a concrete round: of two indexed candidates the second is beyond the stop
  time, so the first is the selection.
\<close>
theorem SelectBlockFromCandidates_is_select_round_witness:
  "select_round (env0\<lparr>mapBlockIndex := index_tip\<rparr>)
      (dom (\<lambda>k. None :: CBlockIndex option)) 5000 0
      [(0, 1), (30000, 2)] None = Inr (Some (0, mk_index 1 0 1 0 False False))
   \<and> SelectBlockFromCandidates (env0\<lparr>mapBlockIndex := index_tip\<rparr>) [(0, 1), (30000, 2)]
        (\<lambda>k. None) 5000 0 = (Ret_true, Some (mk_index 1 0 1 0 False False))"
proof -
  let ?E = "env0\<lparr>mapBlockIndex := index_tip\<rparr>"
  have d: "dom (\<lambda>k. None :: CBlockIndex option) = ({} :: uint256 set)"
    by simp
  have ev: "select_round ?E {} 5000 0 [(0, 1), (30000, 2)] None
      = Inr (Some (0, mk_index 1 0 1 0 False False))"
    by code_simp
  have res: "SelectBlockFromCandidates ?E [(0, 1), (30000, 2)] (\<lambda>k. None) 5000 0
      = (Ret_true, Some (mk_index 1 0 1 0 False False))"
    using SelectBlockFromCandidates_is_select_round[where E = ?E and mapSelectedBlocks = "\<lambda>k. None"
        and selection_stop = 5000 and prev_modifier = 0 and candidates = "[(0, 1), (30000, 2)]"]
    unfolding d ev by simp
  show ?thesis
    unfolding d by (rule conjI[OF ev res])
qed

text \<open>
  Claim C2 as written says that the round fails only when no candidate was selectable.
  Here the candidate of hash 1 is indexed and not yet selected, and is taken as the best;
  the candidate of hash 2 is not in the block index, and the round fails with an error.
\<close>
theorem SelectBlockFromCandidates_fails_with_selectable_candidate:
  "SelectBlockFromCandidates (env0\<lparr>mapBlockIndex := index_one\<rparr>) [(1000, 1), (1001, 2)]
      (\<lambda>k. None) 5000 0
     = (Ret_error CandidateNotIndexed, Some (mk_index 1 1000 1 0 True False))"
  by code_simp

text \<open>
  Claim C10. If \<^verbatim>\<open>ComputeNextStakeModifier\<close> fails because a selection round selects
  no block, the reference parameter \<^verbatim>\<open>nStakeModifier\<close> holds the last recorded
  modifier found by \<^verbatim>\<open>GetLastStakeModifier\<close> and
  \<^verbatim>\<open>fGeneratedStakeModifier\<close> is false: the modifier under assembly is not handed
  out.
\<close>
theorem failed_round_keeps_last_modifier:
  assumes "ComputeNextStakeModifier E pindexPrev
             = (Ret_error (UnableToSelectBlock nRound), nStakeModifierOut, fGeneratedOut)"
  shows "(\<exists>T_mod. GetLastStakeModifier pindexPrev = Inr (nStakeModifierOut, T_mod))
         \<and> \<not> fGeneratedOut"
  using assms
  by (auto simp: ComputeNextStakeModifier_def Let_def
           split: list.splits sum.splits prod.splits if_splits option.splits)

text \<open>
  The theorem at a chain whose two nodes carry the same block hash: round 0 selects the
  block of that hash, whose entropy bit makes the modifier under assembly 1; round 1
  finds both candidates selected and fails; the caller sees the last modifier 5.
\<close>
theorem failed_round_keeps_last_modifier_witness:
  "ComputeNextStakeModifier (env0\<lparr>mapBlockIndex := index_dup\<rparr>) chain_dup
     = (Ret_error (UnableToSelectBlock 1), 5, False)
   \<and> ModifierRounds (env0\<lparr>mapBlockIndex := index_dup\<rparr>) [(1000, 7), (1700, 7)] 5 0 (-19935)
        (\<lambda>k. None) 0 = (Ret_error (UnableToSelectBlock 1), 1)
   \<and> (\<exists>T_mod. GetLastStakeModifier chain_dup = Inr (5, T_mod))
   \<and> \<not> False"
proof -
  have run: "ComputeNextStakeModifier (env0\<lparr>mapBlockIndex := index_dup\<rparr>) chain_dup
     = (Ret_error (UnableToSelectBlock 1), 5, False)"
    by code_simp
  have rounds: "ModifierRounds (env0\<lparr>mapBlockIndex := index_dup\<rparr>) [(1000, 7), (1700, 7)] 5 0
        (-19935) (\<lambda>k. None) 0 = (Ret_error (UnableToSelectBlock 1), 1)"
    by code_simp
  show ?thesis
    using run rounds failed_round_keeps_last_modifier[OF run] by simp
qed

subsection \<open>Kernel stake modifier\<close>

text \<open>
  Claim C3, as the source has it. When the forward walk of
  \<^verbatim>\<open>GetKernelStakeModifier\<close> from an indexed \<open>block_from\<close> reaches the chain tip (a
  node with no next link) before the running modifier time reaches
  \<open>block_from.block_time + selection_interval\<close>, it returns a hard error if and only if
  the caller is in print mode or
  \<open>tip.block_time + stake_min_age - selection_interval > adjusted_now\<close>, where \<open>tip\<close> is
  that node with no next link; otherwise it returns a plain false. When the walk does not
  reach the tip before that, the lookup succeeds.
\<close>
theorem GetKernelStakeModifier_at_tip:
  assumes "mapBlockIndex E hashBlockFrom = Some pindexFrom"
    and "GetStakeModifierSelectionInterval (params E) = Some selection_interval"
  shows "(reaches_tip_before (GetBlockTime (blk pindexFrom) + selection_interval) pindexFrom
            (GetBlockTime (blk pindexFrom)) \<longrightarrow>
          fst (GetKernelStakeModifier E hashBlockFrom h0 t0 fPrint) =
            (if fPrint \<or> GetBlockTime (chain_tip pindexFrom) + nStakeMinAge (params E)
                           - selection_interval > GetAdjustedTime E
             then Ret_error ReachedBestBlock else Ret_false))
       \<and> (\<not> reaches_tip_before (GetBlockTime (blk pindexFrom) + selection_interval) pindexFrom
              (GetBlockTime (blk pindexFrom)) \<longrightarrow>
          fst (GetKernelStakeModifier E hashBlockFrom h0 t0 fPrint) = Ret_true)"
  using GetKernelStakeModifier_fst[OF assms, of h0 t0 fPrint] by simp

text \<open>
  The theorem at three lookups from the block of hash 1 and time 0, whose successor of
  time 30000 is the tip. Where the tip generated no modifier the walk reaches it with the
  modifier time 0, below \<open>0 + 21135\<close>: since \<open>30000 + 3600 - 21135 = 12465\<close>, the lookup
  returns a plain false at the adjusted time 20000 and a hard error at 10000. Where the
  tip generated a modifier, the modifier time becomes 30000 there and the lookup
  succeeds.
\<close>
theorem GetKernelStakeModifier_at_tip_witness:
  "index_tip 1 = Some (ChainNode (mk_index 1 0 1 0 False False)
                         (Some (ChainNode (mk_index 2 30000 2 0 False False) None)))
   \<and> GetStakeModifierSelectionInterval (params env0) = Some 21135
   \<and> reaches_tip_before (0 + 21135)
        (ChainNode (mk_index 1 0 1 0 False False)
           (Some (ChainNode (mk_index 2 30000 2 0 False False) None))) 0
   \<and> fst (GetKernelStakeModifier (env0\<lparr>mapBlockIndex := index_tip, GetAdjustedTime := 20000\<rparr>)
             1 0 0 False) = Ret_false
   \<and> fst (GetKernelStakeModifier (env0\<lparr>mapBlockIndex := index_tip, GetAdjustedTime := 10000\<rparr>)
             1 0 0 False) = Ret_error ReachedBestBlock
   \<and> index_gen 1 = Some (ChainNode (mk_index 1 0 1 0 False False)
                            (Some (ChainNode (mk_index 2 30000 2 9 True False) None)))
   \<and> \<not> reaches_tip_before (0 + 21135)
          (ChainNode (mk_index 1 0 1 0 False False)
             (Some (ChainNode (mk_index 2 30000 2 9 True False) None))) 0
   \<and> fst (GetKernelStakeModifier (env0\<lparr>mapBlockIndex := index_gen\<rparr>) 1 0 0 False) = Ret_true"
proof -
  let ?E1 = "env0\<lparr>mapBlockIndex := index_tip, GetAdjustedTime := 20000\<rparr>"
  let ?E2 = "env0\<lparr>mapBlockIndex := index_tip, GetAdjustedTime := 10000\<rparr>"
  let ?E3 = "env0\<lparr>mapBlockIndex := index_gen\<rparr>"
  let ?from = "ChainNode (mk_index 1 0 1 0 False False)
                 (Some (ChainNode (mk_index 2 30000 2 0 False False) None))"
  let ?fromg = "ChainNode (mk_index 1 0 1 0 False False)
                  (Some (ChainNode (mk_index 2 30000 2 9 True False) None))"
  have a1: "mapBlockIndex ?E1 1 = Some ?from" and a2: "mapBlockIndex ?E2 1 = Some ?from"
    by (simp_all add: index_tip_def)
  have a3: "mapBlockIndex ?E3 1 = Some ?fromg"
    by (simp add: index_gen_def)
  have b0: "GetStakeModifierSelectionInterval (params env0) = Some 21135"
    by code_simp
  have pE: "params ?E1 = params env0" "params ?E2 = params env0" "params ?E3 = params env0"
    by simp_all
  have b1: "GetStakeModifierSelectionInterval (params ?E1) = Some 21135"
    and b2: "GetStakeModifierSelectionInterval (params ?E2) = Some 21135"
    and b3: "GetStakeModifierSelectionInterval (params ?E3) = Some 21135"
    unfolding pE by (rule b0)+
  have t: "GetBlockTime (blk ?from) = 0" "GetBlockTime (blk ?fromg) = 0"
    by (simp_all add: mk_index_def)
  have early: "reaches_tip_before (0 + 21135) ?from 0"
    by code_simp
  have late: "\<not> reaches_tip_before (0 + 21135) ?fromg 0"
    by code_simp
  have soft: "(if False \<or> GetBlockTime (chain_tip ?from) + nStakeMinAge (params ?E1) - 21135
                 > GetAdjustedTime ?E1
               then Ret_error ReachedBestBlock else Ret_false) = Ret_false"
    by code_simp
  have hard: "(if False \<or> GetBlockTime (chain_tip ?from) + nStakeMinAge (params ?E2) - 21135
                 > GetAdjustedTime ?E2
               then Ret_error ReachedBestBlock else Ret_false) = Ret_error ReachedBestBlock"
    by code_simp
  have r1: "fst (GetKernelStakeModifier ?E1 1 0 0 False) = Ret_false"
    using GetKernelStakeModifier_at_tip[OF a1 b1, of 0 0 False] early unfolding t soft by simp
  have r2: "fst (GetKernelStakeModifier ?E2 1 0 0 False) = Ret_error ReachedBestBlock"
    using GetKernelStakeModifier_at_tip[OF a2 b2, of 0 0 False] early unfolding t hard by simp
  have r3: "fst (GetKernelStakeModifier ?E3 1 0 0 False) = Ret_true"
    using GetKernelStakeModifier_at_tip[OF a3 b3, of 0 0 False] late unfolding t by simp
  show ?thesis
    using b0 early late r1 r2 r3 by (simp add: index_tip_def index_gen_def)
qed

text \<open>
  Claim C3 as written tests \<open>block_from.block_time + stake_min_age - selection_interval\<close>.
  Here the walk starts at the block of hash 1 and time 0 and stops at the tip of time
  30000, outside print mode and at the adjusted time 10000: the lookup returns a hard
  error, although \<open>0 + 3600 - 21135\<close> is not above 10000.
\<close>
theorem GetKernelStakeModifier_tests_tip_time:
  "fst (GetKernelStakeModifier (env0\<lparr>mapBlockIndex := index_tip\<rparr>) 1 0 0 False)
      = Ret_error ReachedBestBlock
   \<and> \<not> (False \<or> GetBlockTime (mk_index 1 0 1 0 False False)
                   + nStakeMinAge (params (env0\<lparr>mapBlockIndex := index_tip\<rparr>)) - 21135
                 > GetAdjustedTime (env0\<lparr>mapBlockIndex := index_tip\<rparr>))
   \<and> GetStakeModifierSelectionInterval (params (env0\<lparr>mapBlockIndex := index_tip\<rparr>))
       = Some 21135"
  by code_simp

subsection \<open>Kernel hash checks\<close>

text \<open>
  Claim C1, as the source has it. For every call of \<^verbatim>\<open>CheckStakeKernelHashV2\<close>
  whose inputs pass both preflight checks (\<open>time_tx \<ge> tx_prev.time\<close> and
  \<open>time_block_from + stake_min_age \<le> time_tx\<close>) and whose \<open>prevout.n\<close> names an output
  of \<open>tx_prev\<close>: the target is the product of the expanded compact target and the value
  of that output as integers of any size (\<^verbatim>\<open>CBigNum\<close>), not reduced to 256 bits;
  the modifier is \<open>pindexPrev.stake_modifier\<close>; the proof is the hash of the
  little-endian serialization of
  \<open>(modifier:u64, time_block_from:u32, tx_prev.time:u32, prevout.txid:u256, prevout.n:u32,
  time_tx:u32)\<close>, in this order and with no framing; and the function returns true if and
  only if \<open>proof \<le> target\<close>.
\<close>
theorem CheckStakeKernelHashV2_computes:
  assumes "nTime txPrev \<le> nTimeTx"
    and "uint nTimeBlockFrom + nStakeMinAge (params E) \<le> uint nTimeTx"
    and "unat (prevout_n outpoint) < length (vout txPrev)"
  shows "CheckStakeKernelHashV2 E pindexPrev nBits nTimeBlockFrom txPrev outpoint nTimeTx
           hashProofOfStake targetProofOfStake fPrint =
         (let target = CBigNum_SetCompact E nBits
                         * sint (nValue (vout txPrev ! unat (prevout_n outpoint)));
              modifier = nStakeModifier pindexPrev;
              proof = Hash E (ser_u64 modifier @ ser_u32 nTimeBlockFrom @ ser_u32 (nTime txPrev) @
                        ser_u256 (prevout_hash outpoint) @ ser_u32 (prevout_n outpoint) @
                        ser_u32 nTimeTx)
          in (if uint proof \<le> target then Ret_true else Ret_false, proof, targetProofOfStake))"
  using assms by (simp add: CheckStakeKernelHashV2_def Let_def not_less)

text \<open>
  The theorem at a stake of exactly the minimum age: the preimage has 56 bytes, so the
  stand-in hash is 56, and the target is \<open>2 * 100\<close>.
\<close>
theorem CheckStakeKernelHashV2_computes_witness:
  "nTime (mk_tx 900 100) \<le> 4600
   \<and> uint (1000 :: uint32) + nStakeMinAge (params env0) \<le> uint (4600 :: uint32)
   \<and> unat (prevout_n \<lparr>prevout_hash = 9, prevout_n = 0\<rparr>) < length (vout (mk_tx 900 100))
   \<and> CheckStakeKernelHashV2 env0 (mk_index 1000 5000 3 77 True False) 2 1000
        (mk_tx 900 100) \<lparr>prevout_hash = 9, prevout_n = 0\<rparr> 4600 0 0 False = (Ret_true, 56, 0)"
proof -
  let ?prev = "mk_index 1000 5000 3 77 True False"
  let ?out = "\<lparr>prevout_hash = 9, prevout_n = 0\<rparr>"
  have a: "nTime (mk_tx 900 100) \<le> 4600"
    by (simp add: mk_tx_def)
  have b: "uint (1000 :: uint32) + nStakeMinAge (params env0) \<le> uint (4600 :: uint32)"
    by (simp add: env0_def params0_def)
  have c: "unat (prevout_n ?out) < length (vout (mk_tx 900 100))"
    by (simp add: mk_tx_def)
  have rhs:
    "(let target = CBigNum_SetCompact env0 2
                     * sint (nValue (vout (mk_tx 900 100) ! unat (prevout_n ?out)));
          modifier = nStakeModifier ?prev;
          proof = Hash env0 (ser_u64 modifier @ ser_u32 1000 @ ser_u32 (nTime (mk_tx 900 100)) @
                    ser_u256 (prevout_hash ?out) @ ser_u32 (prevout_n ?out) @ ser_u32 4600)
      in (if uint proof \<le> target then Ret_true else Ret_false, proof, 0 :: uint256))
     = (Ret_true, 56, 0)"
    by code_simp
  have "CheckStakeKernelHashV2 env0 ?prev 2 1000 (mk_tx 900 100) ?out 4600 0 0 False
          = (Ret_true, 56, 0)"
    using CheckStakeKernelHashV2_computes[OF a b c, of ?prev 2 0 0 False] unfolding rhs .
  with a b c show ?thesis by simp
qed

text \<open>
  Claim C1 as written makes the target a 256-bit product. Here the compact target
  \<open>0x1e100000\<close> expands to \<open>2 ^ 236\<close> and the staked output has the value \<open>2 ^ 21\<close>;
  both preflight checks pass. The product of the two as 256-bit integers is 0, below the
  proof 56, yet the function returns true: its target is \<open>2 ^ 257\<close>.
\<close>
theorem CheckStakeKernelHashV2_target_exceeds_256_bits:
  "nTime (mk_tx 900 2097152) \<le> 4600
   \<and> uint (1000 :: uint32) + nStakeMinAge (params (env0\<lparr>CBigNum_SetCompact := expand_compact\<rparr>))
       \<le> uint (4600 :: uint32)
   \<and> CBigNum_SetCompact (env0\<lparr>CBigNum_SetCompact := expand_compact\<rparr>) 0x1e100000 = 2 ^ 236
   \<and> sint (nValue (vout (mk_tx 900 2097152) ! 0)) = 2 ^ 21
   \<and> CheckStakeKernelHashV2 (env0\<lparr>CBigNum_SetCompact := expand_compact\<rparr>)
        (mk_index 1000 5000 3 77 True False) 0x1e100000 1000 (mk_tx 900 2097152)
        \<lparr>prevout_hash = 9, prevout_n = 0\<rparr> 4600 0 0 False = (Ret_true, 56, 0)
   \<and> (word_of_int (2 ^ 236) * word_of_int (2 ^ 21) :: uint256) = 0
   \<and> \<not> (56 :: uint256) \<le> word_of_int (2 ^ 236) * word_of_int (2 ^ 21)"
  by code_simp

text \<open>
  Claim C8. In both kernel checks, once the transaction-time check has passed, the
  minimum-age preflight rejects if and only if
  \<open>time_block_from + stake_min_age > time_tx\<close>; at equality the check passes and
  validation proceeds.
\<close>
theorem min_age_preflight:
  assumes "\<not> nTimeTx < nTime txPrev"
  shows "(fst (CheckStakeKernelHashV2 E pindexPrev nBits nTimeBlockFrom txPrev outpoint nTimeTx
                 h t f) = Ret_error MinAgeViolation
          \<longleftrightarrow> uint nTimeBlockFrom + nStakeMinAge (params E) > uint nTimeTx)
       \<and> (fst (CheckStakeKernelHashV1 E nBits blockFrom off txPrev outpoint nTimeTx
                 h t f) = Ret_error MinAgeViolation
          \<longleftrightarrow> uint (word_of_int (block_GetBlockTime blockFrom) :: uint32)
                 + nStakeMinAge (params E) > uint nTimeTx)"
proof
  show "fst (CheckStakeKernelHashV2 E pindexPrev nBits nTimeBlockFrom txPrev outpoint nTimeTx
                 h t f) = Ret_error MinAgeViolation
          \<longleftrightarrow> uint nTimeBlockFrom + nStakeMinAge (params E) > uint nTimeTx"
    using assms by (simp add: CheckStakeKernelHashV2_def Let_def)
  show "fst (CheckStakeKernelHashV1 E nBits blockFrom off txPrev outpoint nTimeTx
                 h t f) = Ret_error MinAgeViolation
          \<longleftrightarrow> uint (word_of_int (block_GetBlockTime blockFrom) :: uint32)
                 + nStakeMinAge (params E) > uint nTimeTx"
    using assms
    by (simp add: CheckStakeKernelHashV1_def Let_def split: prod.splits ret.splits)
qed

text \<open>
  The theorem at equality, \<open>1000 + 3600 = 4600\<close>: neither check reports a minimum-age
  violation, and V2 goes on to accept; one second earlier both report it.
\<close>
theorem min_age_preflight_witness:
  "\<not> (4600 :: uint32) < nTime (mk_tx 900 100)
   \<and> uint (1000 :: uint32) + nStakeMinAge (params env0) = uint (4600 :: uint32)
   \<and> fst (CheckStakeKernelHashV2 env0 (mk_index 1000 5000 3 77 True False) 2 1000
             (mk_tx 900 100) \<lparr>prevout_hash = 9, prevout_n = 0\<rparr> 4600 0 0 False)
       \<noteq> Ret_error MinAgeViolation
   \<and> fst (CheckStakeKernelHashV1 env0 2 \<lparr>block_GetBlockTime = 1000, block_GetHash = 4\<rparr> 0
             (mk_tx 900 100) \<lparr>prevout_hash = 9, prevout_n = 0\<rparr> 4600 0 0 False)
       \<noteq> Ret_error MinAgeViolation
   \<and> fst (CheckStakeKernelHashV2 env0 (mk_index 1000 5000 3 77 True False) 2 1000
             (mk_tx 900 100) \<lparr>prevout_hash = 9, prevout_n = 0\<rparr> 4600 0 0 False) = Ret_true
   \<and> fst (CheckStakeKernelHashV2 env0 (mk_index 1000 5000 3 77 True False) 2 1000
             (mk_tx 900 100) \<lparr>prevout_hash = 9, prevout_n = 0\<rparr> 4599 0 0 False)
       = Ret_error MinAgeViolation
   \<and> fst (CheckStakeKernelHashV1 env0 2 \<lparr>block_GetBlockTime = 1000, block_GetHash = 4\<rparr> 0
             (mk_tx 900 100) \<lparr>prevout_hash = 9, prevout_n = 0\<rparr> 4599 0 0 False)
       = Ret_error MinAgeViolation"
proof -
  let ?prev = "mk_index 1000 5000 3 77 True False"
  let ?out = "\<lparr>prevout_hash = 9, prevout_n = 0\<rparr>"
  let ?blk = "\<lparr>block_GetBlockTime = 1000, block_GetHash = 4\<rparr>"
  have a: "\<not> (4600 :: uint32) < nTime (mk_tx 900 100)"
    by (simp add: mk_tx_def)
  have a': "\<not> (4599 :: uint32) < nTime (mk_tx 900 100)"
    by (simp add: mk_tx_def)
  have b: "uint (1000 :: uint32) + nStakeMinAge (params env0) = uint (4600 :: uint32)"
    by (simp add: env0_def params0_def)
  have b': "uint (1000 :: uint32) + nStakeMinAge (params env0) > uint (4599 :: uint32)"
    by (simp add: env0_def params0_def)
  have w: "(word_of_int (block_GetBlockTime ?blk) :: uint32) = 1000"
    by simp
  have pass: "fst (CheckStakeKernelHashV2 env0 ?prev 2 1000 (mk_tx 900 100) ?out 4600 0 0 False)
      = Ret_true"
    by code_simp
  show ?thesis
    using a b pass
      min_age_preflight[OF a, of env0 ?prev 2 1000 ?out 0 0 False ?blk 0]
      min_age_preflight[OF a', of env0 ?prev 2 1000 ?out 0 0 False ?blk 0]
      b'
    unfolding w by simp
qed

text \<open>
  Claim C6. \<^verbatim>\<open>CheckStakeKernelHash\<close> runs the V2 check if and only if
  \<open>prev.height + 1 > protocol_v2_height\<close>, and the V1 check otherwise; so the block at
  exactly \<open>protocol_v2_height\<close> runs V1.
\<close>
theorem CheckStakeKernelHash_dispatch:
  "CheckStakeKernelHash E pindexPrev nBits blockFrom off txPrev outpoint nTimeTx h t f cp =
     (if nHeight pindexPrev + 1 > nProtocolV2Height cp
      then CheckStakeKernelHashV2 E pindexPrev nBits (word_of_int (block_GetBlockTime blockFrom))
             txPrev outpoint nTimeTx h t f
      else CheckStakeKernelHashV1 E nBits blockFrom off txPrev outpoint nTimeTx h t f)
   \<and> (nHeight pindexPrev + 1 = nProtocolV2Height cp \<longrightarrow>
        CheckStakeKernelHash E pindexPrev nBits blockFrom off txPrev outpoint nTimeTx h t f cp =
          CheckStakeKernelHashV1 E nBits blockFrom off txPrev outpoint nTimeTx h t f)"
  by (simp add: CheckStakeKernelHash_def)

text \<open>
  The theorem at \<open>prev.height = 999\<close> with the switch at 1000: the result is that of V1
  (a plain false, the staked block not being indexed), where V2 would accept.
\<close>
theorem CheckStakeKernelHash_dispatch_witness:
  "nHeight (mk_index 999 5000 3 77 True False) + 1 = nProtocolV2Height params0
   \<and> CheckStakeKernelHash env0 (mk_index 999 5000 3 77 True False) 2
        \<lparr>block_GetBlockTime = 1000, block_GetHash = 4\<rparr> 0 (mk_tx 900 100)
        \<lparr>prevout_hash = 9, prevout_n = 0\<rparr> 4600 0 0 False params0
      = CheckStakeKernelHashV1 env0 2 \<lparr>block_GetBlockTime = 1000, block_GetHash = 4\<rparr> 0
          (mk_tx 900 100) \<lparr>prevout_hash = 9, prevout_n = 0\<rparr> 4600 0 0 False
   \<and> CheckStakeKernelHashV1 env0 2 \<lparr>block_GetBlockTime = 1000, block_GetHash = 4\<rparr> 0
          (mk_tx 900 100) \<lparr>prevout_hash = 9, prevout_n = 0\<rparr> 4600 0 0 False = (Ret_false, 0, 0)
   \<and> CheckStakeKernelHashV2 env0 (mk_index 999 5000 3 77 True False) 2 1000
          (mk_tx 900 100) \<lparr>prevout_hash = 9, prevout_n = 0\<rparr> 4600 0 0 False = (Ret_true, 56, 0)"
proof -
  let ?prev = "mk_index 999 5000 3 77 True False"
  let ?out = "\<lparr>prevout_hash = 9, prevout_n = 0\<rparr>"
  let ?blk = "\<lparr>block_GetBlockTime = 1000, block_GetHash = 4\<rparr>"
  have a: "nHeight ?prev + 1 = nProtocolV2Height params0"
    by (simp add: mk_index_def params0_def)
  have v1: "CheckStakeKernelHashV1 env0 2 ?blk 0 (mk_tx 900 100) ?out 4600 0 0 False
      = (Ret_false, 0, 0)"
    by code_simp
  have v2: "CheckStakeKernelHashV2 env0 ?prev 2 1000 (mk_tx 900 100) ?out 4600 0 0 False
      = (Ret_true, 56, 0)"
    by code_simp
  show ?thesis
    using a v1 v2
      CheckStakeKernelHash_dispatch[of env0 ?prev 2 ?blk 0 "mk_tx 900 100" ?out 4600 0 0 False params0]
    by simp
qed

text \<open>
  Claim C7. \<^verbatim>\<open>CheckCoinStakeTimestamp\<close> returns true if and only if
  \<open>time_block = time_tx\<close> and, when \<open>height > protocol_v2_height\<close>, also
  \<open>(time_tx & stake_timestamp_mask) = 0\<close>; at heights not above \<open>protocol_v2_height\<close> the
  equality alone is required.
\<close>
theorem CheckCoinStakeTimestamp_iff:
  "CheckCoinStakeTimestamp E height time_block time_tx \<longleftrightarrow>
     time_block = time_tx
     \<and> (height > nProtocolV2Height (params E) \<longrightarrow> (time_tx AND STAKE_TIMESTAMP_MASK E) = 0)"
  by (simp add: CheckCoinStakeTimestamp_def)

text \<open>
  The theorem with the mask 15 and the switch at height 1000: at height 1001 the time 16
  passes and 17 fails; at height 999 the time 17 passes.
\<close>
theorem CheckCoinStakeTimestamp_iff_witness:
  "(1001 :: int) > nProtocolV2Height (params env0)
   \<and> CheckCoinStakeTimestamp env0 1001 16 16
   \<and> \<not> CheckCoinStakeTimestamp env0 1001 17 17
   \<and> CheckCoinStakeTimestamp env0 999 17 17
   \<and> \<not> CheckCoinStakeTimestamp env0 999 17 16"
proof -
  have p: "nProtocolV2Height (params env0) = 1000" "STAKE_TIMESTAMP_MASK env0 = 15"
    by (simp_all add: env0_def params0_def)
  have m: "(16 :: int) AND 15 = 0" "(17 :: int) AND 15 \<noteq> 0"
    by simp_all
  show ?thesis
    using CheckCoinStakeTimestamp_iff[of env0 1001 16 16]
      CheckCoinStakeTimestamp_iff[of env0 1001 17 17]
      CheckCoinStakeTimestamp_iff[of env0 999 17 17]
      CheckCoinStakeTimestamp_iff[of env0 999 17 16]
    unfolding p using m by simp
qed

subsection \<open>Validator\<close>

lemma preflight_violation_is_error:
  assumes "nTimeTx < nTime txPrev
           \<or> uint (word_of_int (block_GetBlockTime blockFrom) :: uint32) + nStakeMinAge (params E)
               > uint nTimeTx"
  shows "fst (CheckStakeKernelHash E pindexPrev nBits blockFrom off txPrev outpoint nTimeTx
                h t f cp) \<in> {Ret_error NTimeViolation, Ret_error MinAgeViolation}"
  using assms
  by (auto simp: CheckStakeKernelHash_def CheckStakeKernelHashV1_def CheckStakeKernelHashV2_def
        Let_def)

text \<open>
  Claim C9, as the source has it. When \<^verbatim>\<open>CheckProofOfStake\<close> reaches the kernel
  check (the transaction is a coinstake, its staked output, the block of that output and
  the staked transaction are found, and the signature verifies), a coinstake that
  violates a preflight check of the kernel hash (\<open>time_tx < tx_prev.time\<close>, or minimum
  age) is rejected with the low DoS score 1, and so is a kernel comparison yielding
  \<open>proof > target\<close>.
\<close>
theorem kernel_failures_low_dos:
  assumes "IsCoinStake E tx"
    and "vin tx = txin # others"
    and "GetCoin E (prevout txin) = Some coinPrev"
    and "GetAncestor E pindexPrev (coin_nHeight coinPrev) = Some blockFrom"
    and "ReadBlockFromDisk E blockFrom = Some block"
    and "GetTransaction E (prevout_hash (prevout txin)) = Some txPrev"
    and "VerifySignature E coinPrev (prevout_hash (prevout txin)) tx"
    and "nTime tx < nTime txPrev
         \<or> uint (word_of_int (block_GetBlockTime block) :: uint32) + nStakeMinAge (params E)
             > uint (nTime tx)
         \<or> fst (CheckStakeKernelHash E pindexPrev nBits block
                  (word_of_int (ReadTxOffsetIndex E (nHeight pindexPrev) 0)) txPrev
                  (prevout txin) (nTime tx) h t (fDebug E) (params E)) = Ret_false"
  shows "fst (CheckProofOfStake E pindexPrev tx nBits h t) = DoS 1 CheckKernelFailed"
proof -
  let ?k = "CheckStakeKernelHash E pindexPrev nBits block
              (word_of_int (ReadTxOffsetIndex E (nHeight pindexPrev) 0)) txPrev
              (prevout txin) (nTime tx) h t (fDebug E) (params E)"
  have "fst ?k \<in> {Ret_error NTimeViolation, Ret_error MinAgeViolation, Ret_false}"
    using assms(8) preflight_violation_is_error[of "nTime tx" txPrev block E pindexPrev nBits
        "word_of_int (ReadTxOffsetIndex E (nHeight pindexPrev) 0)" "prevout txin" h t "fDebug E"
        "params E"]
    by auto
  then show ?thesis
    using assms(1-7)
    by (auto simp: CheckProofOfStake_def Let_def split: prod.splits)
qed

text \<open>
  The theorem at a stake that is too young: the staked block has time 2000, the minimum
  age is 3600 and the coinstake has time 5000.
\<close>
theorem kernel_failures_low_dos_witness:
  "IsCoinStake (env_stake 2000 900) (mk_tx 5000 0)
   \<and> vin (mk_tx 5000 0) = [\<lparr>prevout = \<lparr>prevout_hash = 9, prevout_n = 0\<rparr>\<rparr>]
   \<and> GetCoin (env_stake 2000 900) \<lparr>prevout_hash = 9, prevout_n = 0\<rparr> = Some \<lparr>coin_nHeight = 5\<rparr>
   \<and> GetAncestor (env_stake 2000 900) (mk_index 2000 9000 3 77 True False) 5
       = Some (mk_index 5 2000 4 0 True False)
   \<and> ReadBlockFromDisk (env_stake 2000 900) (mk_index 5 2000 4 0 True False)
       = Some \<lparr>block_GetBlockTime = 2000, block_GetHash = 4\<rparr>
   \<and> GetTransaction (env_stake 2000 900) 9 = Some (mk_tx 900 100)
   \<and> VerifySignature (env_stake 2000 900) \<lparr>coin_nHeight = 5\<rparr> 9 (mk_tx 5000 0)
   \<and> uint (word_of_int 2000 :: uint32) + nStakeMinAge (params (env_stake 2000 900))
       > uint (nTime (mk_tx 5000 0))
   \<and> fst (CheckProofOfStake (env_stake 2000 900) (mk_index 2000 9000 3 77 True False)
             (mk_tx 5000 0) 2 0 0) = DoS 1 CheckKernelFailed"
proof -
  let ?E = "env_stake 2000 900"
  let ?prev = "mk_index 2000 9000 3 77 True False"
  let ?txin = "\<lparr>prevout = \<lparr>prevout_hash = 9, prevout_n = 0\<rparr>\<rparr>"
  let ?coin = "\<lparr>coin_nHeight = 5\<rparr>"
  let ?from = "mk_index 5 2000 4 0 True False"
  let ?blk = "\<lparr>block_GetBlockTime = 2000, block_GetHash = 4\<rparr>"
  have a1: "IsCoinStake ?E (mk_tx 5000 0)"
    by (simp add: env_stake_def env0_def)
  have a2: "vin (mk_tx 5000 0) = ?txin # []"
    by (simp add: mk_tx_def)
  have a3: "GetCoin ?E (prevout ?txin) = Some ?coin"
    by (simp add: env_stake_def)
  have a4: "GetAncestor ?E ?prev (coin_nHeight ?coin) = Some ?from"
    by (simp add: env_stake_def)
  have a5: "ReadBlockFromDisk ?E ?from = Some ?blk"
    by (simp add: env_stake_def)
  have a6: "GetTransaction ?E (prevout_hash (prevout ?txin)) = Some (mk_tx 900 100)"
    by (simp add: env_stake_def)
  have a7: "VerifySignature ?E ?coin (prevout_hash (prevout ?txin)) (mk_tx 5000 0)"
    by (simp add: env_stake_def env0_def)
  have young: "uint (word_of_int (block_GetBlockTime ?blk) :: uint32) + nStakeMinAge (params ?E)
      > uint (nTime (mk_tx 5000 0))"
    by (simp add: env_stake_def env0_def params0_def mk_tx_def)
  have a8: "nTime (mk_tx 5000 0) < nTime (mk_tx 900 100)
         \<or> uint (word_of_int (block_GetBlockTime ?blk) :: uint32) + nStakeMinAge (params ?E)
             > uint (nTime (mk_tx 5000 0))
         \<or> fst (CheckStakeKernelHash ?E ?prev 2 ?blk
                  (word_of_int (ReadTxOffsetIndex ?E (nHeight ?prev) 0)) (mk_tx 900 100)
                  (prevout ?txin) (nTime (mk_tx 5000 0)) 0 0 (fDebug ?E) (params ?E)) = Ret_false"
    using young by simp
  have "fst (CheckProofOfStake ?E ?prev (mk_tx 5000 0) 2 0 0) = DoS 1 CheckKernelFailed"
    by (rule kernel_failures_low_dos[OF a1 a2 a3 a4 a5 a6 a7 a8])
  with a1 a2 a3 a4 a5 a6 a7 young show ?thesis by simp
qed

text \<open>
  Claim C9 as written makes a preflight violation a ban-worthy error with a high DoS
  score. Here every collaborator answers and the signature verifies; the coinstake has
  time 4000, before the time 5000 of the staked transaction; the validator rejects it
  with the DoS score 1, the score of a failed kernel comparison, and not with the score
  100 of its ban-worthy rejections.
\<close>
theorem preflight_violation_scores_one:
  "nTime (mk_tx 4000 0) < nTime (mk_tx 5000 100)
   \<and> GetTransaction (env_stake 1000 5000) 9 = Some (mk_tx 5000 100)
   \<and> fst (CheckStakeKernelHash (env_stake 1000 5000) (mk_index 2000 9000 3 77 True False) 2
             \<lparr>block_GetBlockTime = 1000, block_GetHash = 4\<rparr> 0 (mk_tx 5000 100)
             \<lparr>prevout_hash = 9, prevout_n = 0\<rparr> 4000 0 0 False params0)
       = Ret_error NTimeViolation
   \<and> CheckProofOfStake (env_stake 1000 5000) (mk_index 2000 9000 3 77 True False)
         (mk_tx 4000 0) 2 0 0 = (DoS 1 CheckKernelFailed, 0, 0)"
  by code_simp

end
